theory Spec2Isabelle
  imports Main
begin

section \<open>Values held by the persisted store\<close>

text \<open>
  The source is untyped JavaScript. The values that reach the code paths below are
  primitives (\<open>undefined\<close>, \<open>null\<close>, numbers, strings) and, for the
  \<open>customAttributes\<close> of a line item, arrays of \<open>{key, value}\<close> objects with string
  members. Numbers are the integer-valued doubles: an \<open>int\<close> stands for the double
  of that value, and \<open>+\<close> rounds as the double addition does (below). Fractions,
  \<open>NaN\<close> and the infinities (sums of magnitude \<open>2^1024\<close> and more) have no value here.
\<close>

datatype prim = PUndefined | PNull | PNum int | PStr string

datatype jsval = Prim prim | Attrs "(string \<times> string) list"

text \<open>
  A line item is the object literal \<open>{ variantId, quantity, customAttributes }\<close> built by
  \<open>addToCheckout\<close>: always these three own keys, a key whose value is \<open>undefined\<close>
  included.
\<close>

record lineItem =
  variantId :: prim
  quantity :: int
  customAttributes :: jsval

text \<open>
  The persisted state. \<open>None\<close> is \<open>null\<close>; a token, an expiry and a checkout id are
  strings.
\<close>

record state =
  customerAccessToken :: "string option"
  customerAccessTokenExpiresAt :: "string option"
  checkoutId :: "string option"
  checkoutLineItems :: "lineItem list"

definition initialState :: state where
  "initialState =
     \<lparr> customerAccessToken = None,
       customerAccessTokenExpiresAt = None,
       checkoutId = None,
       checkoutLineItems = [] \<rparr>"

text \<open>The payload \<open>{ accessToken, expiresAt }\<close> of a token action.\<close>

record tokenPayload =
  accessToken :: "string option"
  expiresAt :: "string option"

text \<open>
  An action object \<open>{ type, payload }\<close>. The four constructors named after the strings
  of the \<open>switch\<close> carry the payload their case reads; \<open>Unsupported t\<close> is an action
  whose \<open>type\<close> is any other string \<open>t\<close>, which falls to \<open>default\<close>.

  The case of \<open>SET_CUSTOMER_ACCESS_TOKEN\<close> reads two properties of the payload, so its
  payload is optional here: \<open>None\<close> is an action object whose \<open>payload\<close> is missing
  (\<open>undefined\<close>) or \<open>null\<close>, on which the read \<open>payload.accessToken\<close> of line 31
  throws a \<open>TypeError\<close>. The other cases store the payload without reading into it.
\<close>

datatype action =
    SET_CUSTOMER_ACCESS_TOKEN "tokenPayload option"
  | SET_CHECKOUT_ID "string option"
  | SET_CHECKOUT_LINE_ITEMS "lineItem list"
  | RESET
  | Unsupported string

datatype error = Error string | TypeError

fun reducer :: "state \<Rightarrow> action \<Rightarrow> error + state" where
  "reducer state (SET_CUSTOMER_ACCESS_TOKEN (Some payload)) =
     Inr (state\<lparr> customerAccessToken := accessToken payload,
                 customerAccessTokenExpiresAt := expiresAt payload \<rparr>)"
| "reducer state (SET_CUSTOMER_ACCESS_TOKEN None) = Inl TypeError"
| "reducer state (SET_CHECKOUT_ID payload) =
     Inr (state\<lparr> checkoutId := payload \<rparr>)"
| "reducer state (SET_CHECKOUT_LINE_ITEMS payload) =
     Inr (state\<lparr> checkoutLineItems := payload \<rparr>)"
| "reducer state RESET = Inr initialState"
| "reducer state (Unsupported t) =
     Inl (Error ''Invalid action type. Please use a supported action.'')"

section \<open>The stores, the gateway and the hooks' closures\<close>

text \<open>
  The result of a gateway call: \<open>data\<close> is present on success, \<open>userErrors\<close> lists
  the rejections. \<open>if (result.data)\<close> tests that \<open>data\<close> is present.
\<close>

record userError =
  field :: "string list"
  message :: string

record 'a result =
  data :: "'a option"
  userErrors :: "userError list"

record checkoutData =
  id' :: "string option"

text \<open>
  The requests sent to the gateway, in the order they are made. The calls that forward
  \<open>...args\<close> unchanged are logged without them.
\<close>

datatype gatewayCall =
    CreateCustomerAccessToken
  | RenewCustomerAccessToken "string option"
  | DeleteCustomerAccessToken "string option"
  | CreateCheckout
  | LineItemsReplace "lineItem list"
  | ActivateCustomer
  | ResetCustomer
  | ResetCustomerByUrl

text \<open>
  What the two providers hold, with the log of gateway requests: the reducer state kept
  by \<open>useLocalStorageReducer\<close> and the flag kept by
  \<open>useSessionStorageState('sessionIsNew', true)\<close>.
\<close>

record world =
  persisted :: state
  sessionIsNew :: bool
  requests :: "gatewayCall list"

definition dispatch :: "action \<Rightarrow> world \<Rightarrow> error + world" where
  "dispatch a w =
     (case reducer (persisted w) a of
        Inl e \<Rightarrow> Inl e
      | Inr s \<Rightarrow> Inr (w\<lparr> persisted := s \<rparr>))"

definition setSessionIsNew :: "bool \<Rightarrow> world \<Rightarrow> world" where
  "setSessionIsNew b w = w\<lparr> sessionIsNew := b \<rparr>"

definition request :: "gatewayCall \<Rightarrow> world \<Rightarrow> world" where
  "request c w = w\<lparr> requests := requests w @ [c] \<rparr>"

text \<open>
  JavaScript truthiness of a nullable string, as \<open>if (customerAccessToken)\<close> and
  \<open>!checkoutId\<close> test it: \<open>null\<close> and the empty string are falsy.
\<close>

definition truthy :: "string option \<Rightarrow> bool" where
  "truthy x = (case x of None \<Rightarrow> False | Some s \<Rightarrow> s \<noteq> [])"

subsection \<open>useShopifyCustomerAccessTokenWithContext\<close>

text \<open>
  Each callback closes over the \<open>customerAccessToken\<close> of the render that made it:
  that captured token is the first argument. The value an \<open>await\<close> yields is an
  argument too, so every theorem holds for every answer of the gateway; a gateway call
  is taken to settle with a result object, as all of its callers read one.
  \<open>signOut\<close> does not await the deletion it requests, so no answer is among its
  arguments.

  \<open>renewToken\<close> is declared before \<open>signOut\<close> and calls it: the call runs after
  both are initialised and reaches the \<open>signOut\<close> of the same render, which holds the
  same captured token. (The dependency array of \<open>renewToken\<close> also names \<open>signOut\<close>
  ahead of its declaration; the model is of the hook as it runs once built, where that
  read yields \<open>undefined\<close>.)
\<close>

definition signOut :: "string option \<Rightarrow> world \<Rightarrow> error + world" where
  "signOut customerAccessToken' w =
     (let w1 = (if truthy customerAccessToken'
                then request (DeleteCustomerAccessToken customerAccessToken') w
                else w)
      in case dispatch RESET w1 of
           Inl e \<Rightarrow> Inl e
         | Inr w2 \<Rightarrow> Inr (setSessionIsNew True w2))"

definition renewToken ::
  "string option \<Rightarrow> tokenPayload result \<Rightarrow> world \<Rightarrow> error + (world \<times> tokenPayload result)" where
  "renewToken customerAccessToken' result w =
     (let w1 = request (RenewCustomerAccessToken customerAccessToken') w
      in case data result of
           Some d \<Rightarrow>
             (case dispatch (SET_CUSTOMER_ACCESS_TOKEN
                               (Some \<lparr> accessToken = accessToken d, expiresAt = expiresAt d \<rparr>)) w1 of
                Inl e \<Rightarrow> Inl e
              | Inr w2 \<Rightarrow> Inr (w2, result))
         | None \<Rightarrow>
             (case signOut customerAccessToken' w1 of
                Inl e \<Rightarrow> Inl e
              | Inr w2 \<Rightarrow> Inr (w2, result)))"

text \<open>
  The condition of the effect of lines 177 to 182, on the values of one render:
  \<open>if (customerAccessToken && sessionIsNew) renewTokenAutomatically()\<close>.
\<close>

definition renewGuard :: "world \<Rightarrow> bool" where
  "renewGuard w = (truthy (customerAccessToken (persisted w)) \<and> sessionIsNew w)"

definition signIn ::
  "tokenPayload result \<Rightarrow> world \<Rightarrow> error + (world \<times> tokenPayload result)" where
  "signIn result w =
     (let w1 = request CreateCustomerAccessToken w
      in case data result of
           Some d \<Rightarrow>
             (case dispatch (SET_CUSTOMER_ACCESS_TOKEN
                               (Some \<lparr> accessToken = accessToken d, expiresAt = expiresAt d \<rparr>)) w1 of
                Inl e \<Rightarrow> Inl e
              | Inr w2 \<Rightarrow> Inr (setSessionIsNew False w2, result))
         | None \<Rightarrow> Inr (w1, result))"

subsection \<open>useShopifyCheckoutWithContext\<close>

definition createCheckoutWithContext ::
  "checkoutData result \<Rightarrow> world \<Rightarrow> error + (world \<times> checkoutData result)" where
  "createCheckoutWithContext result w =
     (let w1 = request CreateCheckout w
      in case data result of
           Some d \<Rightarrow>
             (case dispatch (SET_CHECKOUT_ID (id' d)) w1 of
                Inl e \<Rightarrow> Inl e
              | Inr w2 \<Rightarrow> Inr (w2, result))
         | None \<Rightarrow> Inr (w1, result))"

text \<open>
  The condition of the effect of lines 249 to 251:
  \<open>if (autoCreate && !checkoutId) createCheckoutWithContext()\<close>.
\<close>

definition createGuard :: "bool \<Rightarrow> world \<Rightarrow> bool" where
  "createGuard autoCreate w = (autoCreate \<and> \<not> truthy (checkoutId (persisted w)))"

subsection \<open>useShopifyCustomerWithContext\<close>

definition activateCustomer ::
  "tokenPayload result \<Rightarrow> world \<Rightarrow> error + (world \<times> tokenPayload result)" where
  "activateCustomer result w =
     (let w1 = request ActivateCustomer w
      in case data result of
           Some d \<Rightarrow>
             (case dispatch (SET_CUSTOMER_ACCESS_TOKEN
                               (Some \<lparr> accessToken = accessToken d, expiresAt = expiresAt d \<rparr>)) w1 of
                Inl e \<Rightarrow> Inl e
              | Inr w2 \<Rightarrow> Inr (w2, result))
         | None \<Rightarrow> Inr (w1, result))"

definition resetCustomer ::
  "tokenPayload result \<Rightarrow> world \<Rightarrow> error + (world \<times> tokenPayload result)" where
  "resetCustomer result w =
     (let w1 = request ResetCustomer w
      in case data result of
           Some d \<Rightarrow>
             (case dispatch (SET_CUSTOMER_ACCESS_TOKEN
                               (Some \<lparr> accessToken = accessToken d, expiresAt = expiresAt d \<rparr>)) w1 of
                Inl e \<Rightarrow> Inl e
              | Inr w2 \<Rightarrow> Inr (w2, result))
         | None \<Rightarrow> Inr (w1, result))"

definition resetCustomerByUrl ::
  "tokenPayload result \<Rightarrow> world \<Rightarrow> error + (world \<times> tokenPayload result)" where
  "resetCustomerByUrl result w =
     (let w1 = request ResetCustomerByUrl w
      in case data result of
           Some d \<Rightarrow>
             (case dispatch (SET_CUSTOMER_ACCESS_TOKEN
                               (Some \<lparr> accessToken = accessToken d, expiresAt = expiresAt d \<rparr>)) w1 of
                Inl e \<Rightarrow> Inl e
              | Inr w2 \<Rightarrow> Inr (w2, result))
         | None \<Rightarrow> Inr (w1, result))"

subsection \<open>useShopifyProductVariantWithContext\<close>

text \<open>
  lodash's \<open>includes(value, collection)\<close> on an object searches the values of its own
  keys, compared by SameValueZero; it does not look at the key names. The value searched
  for is the hook's \<open>variantId\<close>, a primitive, which no array equals.
\<close>

definition values' :: "lineItem \<Rightarrow> jsval list" where
  "values' lineItem' =
     [Prim (variantId lineItem'), Prim (PNum (quantity lineItem')), customAttributes lineItem']"

definition includes' :: "prim \<Rightarrow> lineItem \<Rightarrow> bool" where
  "includes' value lineItem' = (Prim value \<in> set (values' lineItem'))"

text \<open>
  lodash's \<open>mergeWith(customizer, object, source)\<close> with the customizer of lines 288 to
  292, which returns \<open>objValue + srcValue\<close> for the key \<open>quantity\<close> and \<open>undefined\<close>
  for every other key. For those the library's own merge applies: a source value
  \<open>undefined\<close> keeps the destination's value when the key exists, any other primitive
  replaces it, and an array is merged index by index into the destination array (into a
  fresh one when the destination holds no array), where each \<open>{key, value}\<close> element of
  the source overwrites both members.
\<close>

text \<open>
  \<open>objValue + srcValue\<close> on two numbers is the addition of doubles: the exact sum,
  rounded to 53 significant bits, ties to the even neighbour. Up to \<open>2^53\<close> in
  magnitude every integer is a double and the sum is exact.
\<close>

fun bitLength :: "nat \<Rightarrow> nat" where
  "bitLength n = (if n = 0 then 0 else Suc (bitLength (n div 2)))"

declare bitLength.simps [simp del]

definition roundDouble :: "int \<Rightarrow> int" where
  "roundDouble n =
     (if \<bar>n\<bar> \<le> 9007199254740992 then n
      else (let m = nat \<bar>n\<bar>;
                ulp = 2 ^ (bitLength m - 53);
                q = m div ulp;
                r = m mod ulp;
                q' = (if 2 * r < ulp then q
                      else if ulp < 2 * r then q + 1
                      else if even q then q else q + 1)
            in sgn n * int (q' * ulp)))"

definition jsAdd :: "int \<Rightarrow> int \<Rightarrow> int" where
  "jsAdd objValue srcValue = roundDouble (objValue + srcValue)"

definition mergePrim :: "prim \<Rightarrow> prim \<Rightarrow> prim" where
  "mergePrim objValue srcValue = (if srcValue = PUndefined then objValue else srcValue)"

fun mergeValue :: "jsval \<Rightarrow> jsval \<Rightarrow> jsval" where
  "mergeValue objValue (Prim srcValue) =
     (if srcValue = PUndefined then objValue else Prim srcValue)"
| "mergeValue (Attrs objValue) (Attrs srcValue) =
     Attrs (srcValue @ drop (length srcValue) objValue)"
| "mergeValue (Prim objValue) (Attrs srcValue) = Attrs srcValue"

definition mergeWith :: "lineItem \<Rightarrow> lineItem \<Rightarrow> lineItem" where
  "mergeWith lineItem' newLineItem =
     \<lparr> variantId = mergePrim (variantId lineItem') (variantId newLineItem),
       quantity = jsAdd (quantity lineItem') (quantity newLineItem),
       customAttributes =
         mergeValue (customAttributes lineItem') (customAttributes newLineItem) \<rparr>"

text \<open>
  Lines 278 to 305. \<open>duplicateResolved\<close> is set by the mapping function whenever one
  element matches.
\<close>

definition mergedLineItems :: "prim \<Rightarrow> lineItem \<Rightarrow> lineItem list \<Rightarrow> lineItem list" where
  "mergedLineItems variantId' newLineItem checkoutLineItems' =
     map (\<lambda>lineItem'. if includes' variantId' lineItem'
                       then mergeWith lineItem' newLineItem
                       else lineItem')
         checkoutLineItems'"

definition duplicateResolved :: "prim \<Rightarrow> lineItem list \<Rightarrow> bool" where
  "duplicateResolved variantId' checkoutLineItems' =
     list_ex (includes' variantId') checkoutLineItems'"

definition nextLineItems ::
  "prim \<Rightarrow> int \<Rightarrow> jsval \<Rightarrow> lineItem list \<Rightarrow> lineItem list" where
  "nextLineItems variantId' quantity' customAttributes' checkoutLineItems' =
     (let newLineItem = \<lparr> variantId = variantId', quantity = quantity',
                           customAttributes = customAttributes' \<rparr>;
          merged = mergedLineItems variantId' newLineItem checkoutLineItems'
      in if duplicateResolved variantId' checkoutLineItems'
         then merged
         else newLineItem # merged)"

text \<open>
  \<open>addToCheckout\<close> of the hook called with \<open>variantId\<close>, closed over the
  \<open>checkoutLineItems\<close> of its render. An omitted quantity (\<open>None\<close>) takes the default
  1. The value of \<open>await lineItemsReplace(nextLineItems)\<close> is the argument \<open>result\<close>.
\<close>

definition defaultQuantity :: "int option \<Rightarrow> int" where
  "defaultQuantity quantity' = (case quantity' of None \<Rightarrow> 1 | Some n \<Rightarrow> n)"

definition addToCheckout ::
  "prim \<Rightarrow> lineItem list \<Rightarrow> int option \<Rightarrow> jsval \<Rightarrow> 'c result \<Rightarrow> world \<Rightarrow> error + world" where
  "addToCheckout variantId' checkoutLineItems' quantity' customAttributes' result w =
     (let next = nextLineItems variantId' (defaultQuantity quantity') customAttributes'
                   checkoutLineItems';
          w1 = request (LineItemsReplace next) w
      in dispatch (SET_CHECKOUT_LINE_ITEMS next) w1)"

text \<open>
  A render of the hook (line 268) reads \<open>checkoutLineItems\<close> once and returns an
  \<open>addToCheckout\<close> closed over that list: the function value of the render of the
  world \<open>rendered\<close>. Called later, it still merges into the list of its own render
  and dispatches onto the world of the time of the call.
\<close>

definition useShopifyProductVariantWithContext ::
  "prim \<Rightarrow> world \<Rightarrow> int option \<Rightarrow> jsval \<Rightarrow> 'c result \<Rightarrow> world \<Rightarrow> error + world" where
  "useShopifyProductVariantWithContext variantId' rendered =
     addToCheckout variantId' (checkoutLineItems (persisted rendered))"

record 'c addCall =
  callVariantId :: prim
  callQuantity :: "int option"
  callCustomAttributes :: jsval
  callResult :: "'c result"

text \<open>
  \<open>addNow\<close> is a call through the function value of the latest render, the render of
  the world the call starts from; \<open>addAll\<close> is a sequence of awaited calls in which
  every call is made that way, after the render that follows the dispatch of the call
  before it. \<open>addAllFrom rendered\<close> is a sequence of awaited calls that are all made
  through the function values of one and the same render (as the calls of one event
  handler are), so that every call merges into the list of that render.
\<close>

definition addNow :: "'c addCall \<Rightarrow> world \<Rightarrow> error + world" where
  "addNow c w =
     useShopifyProductVariantWithContext (callVariantId c) w
       (callQuantity c) (callCustomAttributes c) (callResult c) w"

fun addAll :: "'c addCall list \<Rightarrow> world \<Rightarrow> error + world" where
  "addAll [] w = Inr w"
| "addAll (c # cs) w =
     (case addNow c w of
        Inl e \<Rightarrow> Inl e
      | Inr w1 \<Rightarrow> addAll cs w1)"

fun addAllFrom :: "world \<Rightarrow> 'c addCall list \<Rightarrow> world \<Rightarrow> error + world" where
  "addAllFrom rendered [] w = Inr w"
| "addAllFrom rendered (c # cs) w =
     (case useShopifyProductVariantWithContext (callVariantId c) rendered
             (callQuantity c) (callCustomAttributes c) (callResult c) w of
        Inl e \<Rightarrow> Inl e
      | Inr w1 \<Rightarrow> addAllFrom rendered cs w1)"

text \<open>
  The candidate a call builds at line 278, and the input typing of the remote
  \<open>CheckoutLineItemInput\<close> (the mutation of \<open>MutationCheckoutLineItemsReplace\<close>): the
  variant id is an \<open>ID\<close> string, the custom attributes are a list of attributes or are
  left out.
\<close>

definition candidate :: "'c addCall \<Rightarrow> lineItem" where
  "candidate c =
     \<lparr> variantId = callVariantId c,
       quantity = defaultQuantity (callQuantity c),
       customAttributes = callCustomAttributes c \<rparr>"

definition isIdentifier :: "prim \<Rightarrow> bool" where
  "isIdentifier v = (case v of PStr s \<Rightarrow> True | _ \<Rightarrow> False)"

definition isAttributeInput :: "jsval \<Rightarrow> bool" where
  "isAttributeInput a = (case a of Attrs xs \<Rightarrow> True | Prim p \<Rightarrow> p = PUndefined \<or> p = PNull)"

definition wellTypedCall :: "'c addCall \<Rightarrow> bool" where
  "wellTypedCall c = (isIdentifier (callVariantId c) \<and> isAttributeInput (callCustomAttributes c))"

text \<open>
  No call's variant id is the quantity or the \<open>customAttributes\<close> value of a call made
  before it: what the duplicate test of line 285 needs, besides distinct ids, in order
  not to take a later candidate for an earlier entry.
\<close>

fun idsApart :: "'c addCall list \<Rightarrow> bool" where
  "idsApart [] = True"
| "idsApart (c # cs) =
     (list_all (\<lambda>d. callVariantId d \<noteq> PNum (defaultQuantity (callQuantity c))
                   \<and> Prim (callVariantId d) \<noteq> callCustomAttributes c) cs
      \<and> idsApart cs)"

section \<open>Renders and effects of the session hook\<close>

text \<open>
  One mounted instance of \<open>useShopifyCustomerAccessTokenWithContext\<close>. A session is the
  world together with the automatic renewals that have been started and still await the
  gateway, each with the token its \<open>renewToken\<close> has captured, oldest first.

  Every state update that a callback makes after an \<open>await\<close> (\<open>dispatch\<close>,
  \<open>setSessionIsNew\<close>) is committed by a render of its own, as React does outside its
  event handlers when it does not batch updates, and the effect of lines 177 to
  182 of that render runs before the next update is processed, when one of its
  dependencies has changed since the render before. The dependencies are
  \<open>customerAccessToken\<close>, \<open>sessionIsNew\<close> and \<open>renewTokenAutomatically\<close>, whose identity
  follows the token and the callbacks of the gateway hook. That hook is not part of
  these sources: the parameter \<open>kept\<close> says whether it returns the same callbacks on
  every render (then the effect runs when the token or the flag has changed) or new
  ones (then it runs after every render). On the first render the effect always runs.
\<close>

type_synonym session = "world \<times> string option list"

definition andThen :: "error + 'a \<Rightarrow> ('a \<Rightarrow> error + 'b) \<Rightarrow> error + 'b" where
  "andThen x f = (case x of Inl e \<Rightarrow> Inl e | Inr a \<Rightarrow> f a)"

definition deps :: "world \<Rightarrow> string option \<times> bool" where
  "deps w = (customerAccessToken (persisted w), sessionIsNew w)"

text \<open>
  The call \<open>renewTokenAutomatically()\<close> up to its first \<open>await\<close>: \<open>renewToken\<close> sends
  the request with the token of the render (line 140).
\<close>

definition startRenewal :: "session \<Rightarrow> session" where
  "startRenewal s =
     (case s of (w, inFlight) \<Rightarrow>
        (request (RenewCustomerAccessToken (customerAccessToken (persisted w))) w,
         inFlight @ [customerAccessToken (persisted w)]))"


definition commit :: "bool \<Rightarrow> world \<Rightarrow> session \<Rightarrow> session" where
  "commit kept rendered s =
     (case s of (w, inFlight) \<Rightarrow>
        if (kept \<longrightarrow> deps w \<noteq> deps rendered) \<and> renewGuard w
        then startRenewal (w, inFlight)
        else (w, inFlight))"

definition update :: "bool \<Rightarrow> (world \<Rightarrow> error + world) \<Rightarrow> session \<Rightarrow> error + session" where
  "update kept f s =
     (case s of (w, inFlight) \<Rightarrow>
        (case f w of
           Inl e \<Rightarrow> Inl e
         | Inr w1 \<Rightarrow> Inr (commit kept w (w1, inFlight))))"

text \<open>\<open>signOut\<close> (lines 159 to 162), one render after each of its two updates.\<close>

definition signOutStepwise :: "bool \<Rightarrow> string option \<Rightarrow> session \<Rightarrow> error + session" where
  "signOutStepwise kept customerAccessToken' s =
     (case s of (w, inFlight) \<Rightarrow>
        andThen
          (update kept (dispatch RESET)
             (if truthy customerAccessToken'
              then request (DeleteCustomerAccessToken customerAccessToken') w
              else w,
              inFlight))
          (update kept (\<lambda>w1. Inr (setSessionIsNew True w1))))"

text \<open>
  The rest of an automatic renewal, run when the gateway answers: \<open>renewToken\<close> from
  line 141 on, then line 173 of \<open>renewTokenAutomatically\<close>.
\<close>

definition resumeRenewal ::
  "bool \<Rightarrow> string option \<Rightarrow> tokenPayload result \<Rightarrow> session \<Rightarrow> error + session" where
  "resumeRenewal kept customerAccessToken' result s =
     andThen
       (case data result of
          Some d \<Rightarrow>
            update kept
              (dispatch (SET_CUSTOMER_ACCESS_TOKEN
                           (Some \<lparr> accessToken = accessToken d, expiresAt = expiresAt d \<rparr>))) s
        | None \<Rightarrow> signOutStepwise kept customerAccessToken' s)
       (update kept (\<lambda>w. Inr (setSessionIsNew False w)))"





section \<open>Instances of the checkout hook\<close>

text \<open>
  Every component that calls \<open>useShopifyCheckoutWithContext\<close> mounts the effect of lines
  249 to 251 once more, and \<open>useShopifyProductVariantWithContext\<close> calls it itself (line
  272) with \<open>autoCreate\<close> left at its default \<open>true\<close>. The instances are given by their
  \<open>autoCreate\<close> arguments; the number counts the create calls that await the gateway.
  The effects of the first render all run on the state of that render; an answer with
  data dispatches (line 239), and the effects run again when \<open>checkoutId\<close> has changed
  or, when the gateway hook does not keep its callbacks (\<open>kept\<close> false), after every
  render.
\<close>

definition mountCheckout :: "bool \<Rightarrow> world \<times> nat \<Rightarrow> world \<times> nat" where
  "mountCheckout autoCreate s =
     (case s of (w, pending) \<Rightarrow>
        if createGuard autoCreate w
        then (request CreateCheckout w, Suc pending)
        else (w, pending))"

definition mountCheckouts :: "bool list \<Rightarrow> world \<Rightarrow> world \<times> nat" where
  "mountCheckouts instances w = fold mountCheckout instances (w, 0)"

definition answerCreate ::
  "bool \<Rightarrow> bool list \<Rightarrow> checkoutData result \<Rightarrow> world \<times> nat \<Rightarrow> error + (world \<times> nat)" where
  "answerCreate kept instances result s =
     (case s of (w, pending) \<Rightarrow>
        if pending = 0 then Inr (w, pending)
        else (case data result of
                Some d \<Rightarrow>
                  (case dispatch (SET_CHECKOUT_ID (id' d)) w of
                     Inl e \<Rightarrow> Inl e
                   | Inr w1 \<Rightarrow>
                       Inr (if kept \<longrightarrow> checkoutId (persisted w1) \<noteq> checkoutId (persisted w)
                            then fold mountCheckout instances (w1, pending - 1)
                            else (w1, pending - 1)))
              | None \<Rightarrow> Inr (w, pending - 1)))"

fun answerCreates ::
  "bool \<Rightarrow> bool list \<Rightarrow> checkoutData result list \<Rightarrow> world \<times> nat
     \<Rightarrow> error + (world \<times> nat)" where
  "answerCreates kept instances [] s = Inr s"
| "answerCreates kept instances (r # rs) s =
     (case answerCreate kept instances r s of
        Inl e \<Rightarrow> Inl e
      | Inr s1 \<Rightarrow> answerCreates kept instances rs s1)"

section \<open>Concrete values for the closed instances\<close>

definition rejected :: "'a result" where
  "rejected =
     \<lparr> data = None,
       userErrors = [\<lparr> field = [''input''], message = ''Unidentified customer'' \<rparr>] \<rparr>"

definition accepted :: "string \<Rightarrow> tokenPayload result" where
  "accepted t =
     \<lparr> data = Some \<lparr> accessToken = Some t, expiresAt = Some ''2030-01-01T00:00:00Z'' \<rparr>,
       userErrors = [] \<rparr>"

definition created :: "string \<Rightarrow> checkoutData result" where
  "created i = \<lparr> data = Some \<lparr> id' = Some i \<rparr>, userErrors = [] \<rparr>"

definition freshWorld :: world where
  "freshWorld = \<lparr> persisted = initialState, sessionIsNew = True, requests = [] \<rparr>"

definition signedInWorld :: world where
  "signedInWorld =
     \<lparr> persisted = initialState\<lparr> customerAccessToken := Some ''a'',
                                   customerAccessTokenExpiresAt := Some ''2029-01-01T00:00:00Z'' \<rparr>,
       sessionIsNew = True,
       requests = [] \<rparr>"

definition cartWorld :: world where
  "cartWorld =
     \<lparr> persisted = initialState\<lparr> checkoutLineItems :=
           [\<lparr> variantId = PStr ''v2'', quantity = 1, customAttributes = Prim PUndefined \<rparr>] \<rparr>,
       sessionIsNew = False,
       requests = [] \<rparr>"

definition plainCall :: "prim \<Rightarrow> int \<Rightarrow> unit addCall" where
  "plainCall v q =
     \<lparr> callVariantId = v, callQuantity = Some q,
       callCustomAttributes = Prim PUndefined, callResult = rejected \<rparr>"

section \<open>Dispatching\<close>

lemma dispatch_RESET [simp]: "dispatch RESET w = Inr (w\<lparr> persisted := initialState \<rparr>)"
  by (simp add: dispatch_def)

lemma dispatch_SET_CUSTOMER_ACCESS_TOKEN [simp]:
  "dispatch (SET_CUSTOMER_ACCESS_TOKEN (Some p)) w =
     Inr (w\<lparr> persisted := (persisted w)\<lparr> customerAccessToken := accessToken p,
                                          customerAccessTokenExpiresAt := expiresAt p \<rparr> \<rparr>)"
  by (simp add: dispatch_def)

lemma dispatch_SET_CHECKOUT_ID [simp]:
  "dispatch (SET_CHECKOUT_ID i) w = Inr (w\<lparr> persisted := (persisted w)\<lparr> checkoutId := i \<rparr> \<rparr>)"
  by (simp add: dispatch_def)

lemma dispatch_SET_CHECKOUT_LINE_ITEMS [simp]:
  "dispatch (SET_CHECKOUT_LINE_ITEMS xs) w =
     Inr (w\<lparr> persisted := (persisted w)\<lparr> checkoutLineItems := xs \<rparr> \<rparr>)"
  by (simp add: dispatch_def)

lemma dispatch_without_payload [simp]:
  "dispatch (SET_CUSTOMER_ACCESS_TOKEN None) w = Inl TypeError"
  by (simp add: dispatch_def)

lemma dispatch_Unsupported [simp]:
  "dispatch (Unsupported t) w =
     Inl (Error ''Invalid action type. Please use a supported action.'')"
  by (simp add: dispatch_def)

text \<open>
  Claim C9, as the code has it. The reducer raises in two cases and in no other: on an
  action whose type is none of the four strings of its \<open>switch\<close> (the \<open>Error\<close> of line
  51), and on a set-token action without a payload object, where the read of line 31
  throws a \<open>TypeError\<close>. A dispatch raises in the same cases and then yields no new
  world: the error replaces the rest of the call path. Set-token with its payload,
  set-checkout-id, set-line-items and reset never raise.
\<close>

theorem reducer_raises_iff_unsupported:
  "((\<exists>e. reducer s a = Inl e) \<longleftrightarrow>
      ((\<exists>t. a = Unsupported t) \<or> a = SET_CUSTOMER_ACCESS_TOKEN None))
   \<and> ((\<exists>e. dispatch a w = Inl e) \<longleftrightarrow>
      ((\<exists>t. a = Unsupported t) \<or> a = SET_CUSTOMER_ACCESS_TOKEN None))
   \<and> reducer s (Unsupported t) =
       Inl (Error ''Invalid action type. Please use a supported action.'')
   \<and> reducer s (SET_CUSTOMER_ACCESS_TOKEN None) = Inl TypeError
   \<and> reducer s (SET_CUSTOMER_ACCESS_TOKEN (Some p)) =
       Inr (s\<lparr> customerAccessToken := accessToken p,
               customerAccessTokenExpiresAt := expiresAt p \<rparr>)
   \<and> reducer s (SET_CHECKOUT_ID i) = Inr (s\<lparr> checkoutId := i \<rparr>)
   \<and> reducer s (SET_CHECKOUT_LINE_ITEMS xs) = Inr (s\<lparr> checkoutLineItems := xs \<rparr>)
   \<and> reducer s RESET = Inr initialState"
proof -
  have raises: "(\<exists>e. reducer s a = Inl e) \<longleftrightarrow>
      ((\<exists>t. a = Unsupported t) \<or> a = SET_CUSTOMER_ACCESS_TOKEN None)"
  proof (cases a)
    case (SET_CUSTOMER_ACCESS_TOKEN x)
    then show ?thesis by (cases x) simp_all
  qed simp_all
  have halts: "(\<exists>e. dispatch a w = Inl e) \<longleftrightarrow>
      ((\<exists>t. a = Unsupported t) \<or> a = SET_CUSTOMER_ACCESS_TOKEN None)"
  proof (cases a)
    case (SET_CUSTOMER_ACCESS_TOKEN x)
    then show ?thesis by (cases x) simp_all
  qed simp_all
  from raises halts show ?thesis by simp
qed

text \<open>
  The claim as stated has the four recognized actions never raise. A set-token action
  dispatched without its payload, \<open>dispatch({ type: 'SET_CUSTOMER_ACCESS_TOKEN' })\<close>,
  is of a recognized type and raises.
\<close>

theorem recognized_type_raises:
  "reducer initialState (SET_CUSTOMER_ACCESS_TOKEN None) = Inl TypeError
   \<and> dispatch (SET_CUSTOMER_ACCESS_TOKEN None) freshWorld = Inl TypeError"
  by simp

section \<open>The session hooks\<close>



text \<open>
  Claim C7. With a data payload, \<open>renewToken\<close> stores the returned token and expiry and
  returns the result. Without one it runs \<open>signOut\<close> with its captured token, returns
  normally, and hands the same failure result back.
\<close>

theorem renewToken_outcomes:
  "(\<forall>d. data r = Some d \<longrightarrow>
        renewToken tok r w =
          Inr (w\<lparr> persisted := (persisted w)\<lparr> customerAccessToken := accessToken d,
                                               customerAccessTokenExpiresAt := expiresAt d \<rparr>,
                  requests := requests w @ [RenewCustomerAccessToken tok] \<rparr>, r))
   \<and> (data r = None \<longrightarrow>
        (\<exists>w'. signOut tok (request (RenewCustomerAccessToken tok) w) = Inr w'
              \<and> renewToken tok r w = Inr (w', r)
              \<and> persisted w' = initialState \<and> sessionIsNew w'))"
  by (auto simp add: renewToken_def signOut_def request_def setSessionIsNew_def)

theorem renewToken_outcomes_witness:
  "data (accepted ''b'') = Some \<lparr> accessToken = Some ''b'', expiresAt = Some ''2030-01-01T00:00:00Z'' \<rparr>
   \<and> renewToken (Some ''a'') (accepted ''b'') signedInWorld =
       Inr (\<lparr> persisted = \<lparr> customerAccessToken = Some ''b'',
                             customerAccessTokenExpiresAt = Some ''2030-01-01T00:00:00Z'',
                             checkoutId = None, checkoutLineItems = [] \<rparr>,
               sessionIsNew = True,
               requests = [RenewCustomerAccessToken (Some ''a'')] \<rparr>, accepted ''b'')
   \<and> data (rejected :: tokenPayload result) = None
   \<and> (\<exists>w'. renewToken (Some ''a'') rejected signedInWorld = Inr (w', rejected)
           \<and> persisted w' = initialState \<and> sessionIsNew w')"
  using renewToken_outcomes [of "accepted ''b''" "Some ''a''" signedInWorld]
        renewToken_outcomes [of rejected "Some ''a''" signedInWorld]
  by (auto simp add: accepted_def rejected_def signedInWorld_def initialState_def)

text \<open>
  Claim C10. When the gateway's result has no data payload, \<open>signIn\<close>,
  \<open>createCheckout\<close>, \<open>activateCustomer\<close>, \<open>resetCustomer\<close> and \<open>resetCustomerByUrl\<close>
  dispatch nothing: the world they return is the one they started from with the request
  added to the log, so the persisted state and the flag are unchanged, and they return
  the failure result.
\<close>

theorem failure_leaves_state:
  "data r = None \<Longrightarrow> data cr = None \<Longrightarrow>
     signIn r w = Inr (request CreateCustomerAccessToken w, r)
     \<and> createCheckoutWithContext cr w = Inr (request CreateCheckout w, cr)
     \<and> activateCustomer r w = Inr (request ActivateCustomer w, r)
     \<and> resetCustomer r w = Inr (request ResetCustomer w, r)
     \<and> resetCustomerByUrl r w = Inr (request ResetCustomerByUrl w, r)
     \<and> persisted (request c w) = persisted w
     \<and> sessionIsNew (request c w) = sessionIsNew w"
  by (simp add: signIn_def createCheckoutWithContext_def activateCustomer_def
        resetCustomer_def resetCustomerByUrl_def request_def)

theorem failure_leaves_state_witness:
  "data (rejected :: tokenPayload result) = None
   \<and> data (rejected :: checkoutData result) = None
   \<and> signIn rejected signedInWorld = Inr (request CreateCustomerAccessToken signedInWorld, rejected)
   \<and> createCheckoutWithContext rejected signedInWorld =
       Inr (request CreateCheckout signedInWorld, rejected)
   \<and> activateCustomer rejected signedInWorld = Inr (request ActivateCustomer signedInWorld, rejected)
   \<and> resetCustomer rejected signedInWorld = Inr (request ResetCustomer signedInWorld, rejected)
   \<and> resetCustomerByUrl rejected signedInWorld =
       Inr (request ResetCustomerByUrl signedInWorld, rejected)
   \<and> persisted (request CreateCheckout signedInWorld) = persisted signedInWorld
   \<and> sessionIsNew (request CreateCheckout signedInWorld) = sessionIsNew signedInWorld"
proof -
  have h1: "data (rejected :: tokenPayload result) = None"
    by (simp add: rejected_def)
  have h2: "data (rejected :: checkoutData result) = None"
    by (simp add: rejected_def)
  show ?thesis
    using h1 h2 failure_leaves_state [OF h1 h2, of signedInWorld CreateCheckout]
    by simp
qed

section \<open>The line-item merge\<close>

lemma jsAdd_exact: "\<bar>a + b\<bar> \<le> 9007199254740992 \<Longrightarrow> jsAdd a b = a + b"
  by (simp add: jsAdd_def roundDouble_def)

lemma bitLength_unique: "2 ^ k \<le> n \<Longrightarrow> n < 2 ^ Suc k \<Longrightarrow> bitLength n = Suc k"
proof (induction k arbitrary: n)
  case 0
  then have "n = Suc 0" by simp
  then show ?case
    by (simp add: bitLength.simps [of "Suc 0"] bitLength.simps [of 0])
next
  case (Suc k)
  then have half: "2 ^ k \<le> n div 2" "n div 2 < 2 ^ Suc k" and "n \<noteq> 0"
    by auto
  from Suc.IH [OF half] \<open>n \<noteq> 0\<close> show ?case
    by (simp add: bitLength.simps [of n])
qed

lemma jsAdd_rounds: "jsAdd 9007199254740992 1 = 9007199254740992"
proof -
  have "bitLength 9007199254740993 = Suc 53"
    by (rule bitLength_unique) simp_all
  then show ?thesis
    by (simp add: jsAdd_def roundDouble_def Let_def)
qed

text \<open>
  Claim C4. Whatever the remote replace call answers, \<open>addToCheckout\<close> first sends the
  computed sequence to the gateway and then stores that same sequence as
  \<open>checkoutLineItems\<close>; the returned world does not mention the answer, so nothing is
  rolled back on a rejection.
\<close>

theorem addToCheckout_dispatches_whatever_result:
  "addToCheckout v items q ca r w =
     Inr (w\<lparr> persisted := (persisted w)\<lparr> checkoutLineItems :=
                                 nextLineItems v (defaultQuantity q) ca items \<rparr>,
             requests := requests w @
                           [LineItemsReplace (nextLineItems v (defaultQuantity q) ca items)] \<rparr>)"
  by (simp add: addToCheckout_def request_def Let_def)

theorem addToCheckout_dispatches_whatever_result_witness:
  "data (rejected :: unit result) = None
   \<and> userErrors (rejected :: unit result) =
       [\<lparr> field = [''input''], message = ''Unidentified customer'' \<rparr>]
   \<and> addToCheckout (PStr ''v2'') (checkoutLineItems (persisted cartWorld)) (Some 2)
       (Prim PUndefined) (rejected :: unit result) cartWorld =
     Inr \<lparr> persisted =
             \<lparr> customerAccessToken = None, customerAccessTokenExpiresAt = None,
               checkoutId = None,
               checkoutLineItems =
                 [\<lparr> variantId = PStr ''v2'', quantity = 3,
                     customAttributes = Prim PUndefined \<rparr>] \<rparr>,
           sessionIsNew = False,
           requests =
             [LineItemsReplace
                [\<lparr> variantId = PStr ''v2'', quantity = 3,
                    customAttributes = Prim PUndefined \<rparr>]] \<rparr>"
proof -
  have computed: "nextLineItems (PStr ''v2'') (defaultQuantity (Some 2)) (Prim PUndefined)
                (checkoutLineItems (persisted cartWorld)) =
              [\<lparr> variantId = PStr ''v2'', quantity = 3, customAttributes = Prim PUndefined \<rparr>]"
    by (simp add: nextLineItems_def Let_def duplicateResolved_def mergedLineItems_def
          includes'_def values'_def mergeWith_def mergePrim_def defaultQuantity_def
          jsAdd_exact cartWorld_def initialState_def)
  show ?thesis
    using addToCheckout_dispatches_whatever_result
            [of "PStr ''v2''" "checkoutLineItems (persisted cartWorld)" "Some 2"
                "Prim PUndefined" "rejected :: unit result" cartWorld]
    by (simp add: computed) (simp add: rejected_def cartWorld_def initialState_def)
qed

lemma includes_iff:
  "includes' v li \<longleftrightarrow>
     v = variantId li \<or> v = PNum (quantity li) \<or> customAttributes li = Prim v"
  by (auto simp add: includes'_def values'_def)

lemma mergedLineItems_no_match:
  "\<not> duplicateResolved v items \<Longrightarrow> mergedLineItems v new items = items"
  by (induction items) (simp_all add: mergedLineItems_def duplicateResolved_def)

lemma nextLineItems_insert:
  "\<not> duplicateResolved v items \<Longrightarrow>
     nextLineItems v q ca items = \<lparr> variantId = v, quantity = q, customAttributes = ca \<rparr> # items"
  by (simp add: nextLineItems_def Let_def mergedLineItems_no_match)

lemma nextLineItems_merge_front:
  "\<not> duplicateResolved v items \<Longrightarrow>
     nextLineItems v q2 ca2 (\<lparr> variantId = v, quantity = q1, customAttributes = ca1 \<rparr> # items) =
       \<lparr> variantId = v, quantity = jsAdd q1 q2, customAttributes = mergeValue ca1 ca2 \<rparr> # items"
  by (simp add: nextLineItems_def Let_def duplicateResolved_def includes_iff
        mergedLineItems_def mergeWith_def mergePrim_def list_ex_iff cong: map_cong)

text \<open>A merge happens in place: the sequence keeps its length and its order.\<close>

lemma nextLineItems_in_place:
  assumes "i < length items" and "includes' v (items ! i)"
  shows "nextLineItems v q ca items =
           map (\<lambda>li. if includes' v li
                      then mergeWith li \<lparr> variantId = v, quantity = q, customAttributes = ca \<rparr>
                      else li) items"
proof -
  from assms have "duplicateResolved v items"
    by (auto simp add: duplicateResolved_def list_ex_iff)
  then show ?thesis
    by (simp add: nextLineItems_def Let_def mergedLineItems_def)
qed

lemma addToCheckout_eq:
  "addToCheckout v items q ca r w =
     Inr (w\<lparr> persisted := (persisted w)\<lparr> checkoutLineItems :=
                                 nextLineItems v (defaultQuantity q) ca items \<rparr>,
             requests := requests w @
                           [LineItemsReplace (nextLineItems v (defaultQuantity q) ca items)] \<rparr>)"
  by (simp add: addToCheckout_def request_def Let_def)

lemma hook_eq:
  "useShopifyProductVariantWithContext v rendered q ca r w =
     Inr (w\<lparr> persisted := (persisted w)\<lparr> checkoutLineItems :=
               nextLineItems v (defaultQuantity q) ca (checkoutLineItems (persisted rendered)) \<rparr>,
             requests := requests w @
               [LineItemsReplace
                  (nextLineItems v (defaultQuantity q) ca
                     (checkoutLineItems (persisted rendered)))] \<rparr>)"
  by (simp add: useShopifyProductVariantWithContext_def addToCheckout_eq)

text \<open>
  Claim C1, as the code has it. Each call is made through the function value of the
  latest render. When the duplicate test of the first call matches no entry, the call
  inserts its candidate at the front, and the second call for the same variant leaves
  at that same position an entry of the variant whose quantity is the JavaScript sum
  of the two, which is \<open>q1 + q2\<close> up to \<open>2^53\<close>; the sequence keeps its length and the
  entries behind are untouched. More generally a call for a variant that has an entry
  at position \<open>i\<close> leaves at position \<open>i\<close> an entry of that variant whose quantity is
  the sum of the old and the new one: the quantity is never replaced, the length and
  the entries the test does not match are unchanged.
\<close>

theorem same_variant_twice_sums:
  "(\<not> duplicateResolved v (checkoutLineItems (persisted w)) \<longrightarrow>
      (\<exists>w1 w2.
           useShopifyProductVariantWithContext v w (Some q1) ca1 r1 w = Inr w1
         \<and> checkoutLineItems (persisted w1) =
             \<lparr> variantId = v, quantity = q1, customAttributes = ca1 \<rparr>
               # checkoutLineItems (persisted w)
         \<and> useShopifyProductVariantWithContext v w1 (Some q2) ca2 r2 w1 = Inr w2
         \<and> checkoutLineItems (persisted w2) =
             \<lparr> variantId = v, quantity = jsAdd q1 q2, customAttributes = mergeValue ca1 ca2 \<rparr>
               # checkoutLineItems (persisted w)
         \<and> variantId (checkoutLineItems (persisted w2) ! 0) = v
         \<and> quantity (checkoutLineItems (persisted w2) ! 0) = jsAdd q1 q2
         \<and> (\<bar>q1 + q2\<bar> \<le> 9007199254740992 \<longrightarrow>
              quantity (checkoutLineItems (persisted w2) ! 0) = q1 + q2)
         \<and> length (checkoutLineItems (persisted w2)) = length (checkoutLineItems (persisted w1))))
   \<and> (\<forall>i < length (checkoutLineItems (persisted w)).
        variantId (checkoutLineItems (persisted w) ! i) = v \<longrightarrow>
          (\<exists>w'. useShopifyProductVariantWithContext v w (Some q) ca r w = Inr w'
             \<and> length (checkoutLineItems (persisted w')) = length (checkoutLineItems (persisted w))
             \<and> variantId (checkoutLineItems (persisted w') ! i) = v
             \<and> quantity (checkoutLineItems (persisted w') ! i) =
                 jsAdd (quantity (checkoutLineItems (persisted w) ! i)) q
             \<and> (\<bar>quantity (checkoutLineItems (persisted w) ! i) + q\<bar> \<le> 9007199254740992 \<longrightarrow>
                  quantity (checkoutLineItems (persisted w') ! i) =
                    quantity (checkoutLineItems (persisted w) ! i) + q)
             \<and> (\<forall>j < length (checkoutLineItems (persisted w)).
                  \<not> includes' v (checkoutLineItems (persisted w) ! j) \<longrightarrow>
                    checkoutLineItems (persisted w') ! j = checkoutLineItems (persisted w) ! j)))"
proof (intro conjI impI allI)
  assume "\<not> duplicateResolved v (checkoutLineItems (persisted w))"
  then show "\<exists>w1 w2.
           useShopifyProductVariantWithContext v w (Some q1) ca1 r1 w = Inr w1
         \<and> checkoutLineItems (persisted w1) =
             \<lparr> variantId = v, quantity = q1, customAttributes = ca1 \<rparr>
               # checkoutLineItems (persisted w)
         \<and> useShopifyProductVariantWithContext v w1 (Some q2) ca2 r2 w1 = Inr w2
         \<and> checkoutLineItems (persisted w2) =
             \<lparr> variantId = v, quantity = jsAdd q1 q2, customAttributes = mergeValue ca1 ca2 \<rparr>
               # checkoutLineItems (persisted w)
         \<and> variantId (checkoutLineItems (persisted w2) ! 0) = v
         \<and> quantity (checkoutLineItems (persisted w2) ! 0) = jsAdd q1 q2
         \<and> (\<bar>q1 + q2\<bar> \<le> 9007199254740992 \<longrightarrow>
              quantity (checkoutLineItems (persisted w2) ! 0) = q1 + q2)
         \<and> length (checkoutLineItems (persisted w2)) = length (checkoutLineItems (persisted w1))"
    by (simp add: hook_eq defaultQuantity_def nextLineItems_insert nextLineItems_merge_front
          jsAdd_exact)
next
  fix i
  let ?items = "checkoutLineItems (persisted w)"
  assume i: "i < length ?items" and v: "variantId (?items ! i) = v"
  from v have match: "includes' v (?items ! i)"
    by (simp add: includes_iff)
  note merged = nextLineItems_in_place [OF i match, of q ca]
  show "\<exists>w'. useShopifyProductVariantWithContext v w (Some q) ca r w = Inr w'
             \<and> length (checkoutLineItems (persisted w')) = length ?items
             \<and> variantId (checkoutLineItems (persisted w') ! i) = v
             \<and> quantity (checkoutLineItems (persisted w') ! i) = jsAdd (quantity (?items ! i)) q
             \<and> (\<bar>quantity (?items ! i) + q\<bar> \<le> 9007199254740992 \<longrightarrow>
                  quantity (checkoutLineItems (persisted w') ! i) = quantity (?items ! i) + q)
             \<and> (\<forall>j < length ?items.
                  \<not> includes' v (?items ! j) \<longrightarrow>
                    checkoutLineItems (persisted w') ! j = ?items ! j)"
    using i v match
    by (simp add: hook_eq defaultQuantity_def merged mergeWith_def mergePrim_def jsAdd_exact)
qed

theorem same_variant_twice_sums_witness:
  "\<not> duplicateResolved (PStr ''v1'') (checkoutLineItems (persisted cartWorld))
   \<and> \<bar>2 + 3\<bar> \<le> (9007199254740992 :: int)
   \<and> (\<exists>w1 w2.
         useShopifyProductVariantWithContext (PStr ''v1'') cartWorld (Some 2)
           (Prim PUndefined) (rejected :: unit result) cartWorld = Inr w1
       \<and> useShopifyProductVariantWithContext (PStr ''v1'') w1 (Some 3)
           (Prim PUndefined) (rejected :: unit result) w1 = Inr w2
       \<and> checkoutLineItems (persisted w2) =
           [\<lparr> variantId = PStr ''v1'', quantity = 5, customAttributes = Prim PUndefined \<rparr>,
            \<lparr> variantId = PStr ''v2'', quantity = 1, customAttributes = Prim PUndefined \<rparr>])
   \<and> (0::nat) < length (checkoutLineItems (persisted cartWorld))
   \<and> variantId (checkoutLineItems (persisted cartWorld) ! 0) = PStr ''v2''
   \<and> (\<exists>w'. useShopifyProductVariantWithContext (PStr ''v2'') cartWorld (Some 4)
           (Prim PUndefined) (rejected :: unit result) cartWorld = Inr w'
         \<and> length (checkoutLineItems (persisted w')) = 1
         \<and> variantId (checkoutLineItems (persisted w') ! 0) = PStr ''v2''
         \<and> quantity (checkoutLineItems (persisted w') ! 0) = 5)"
proof -
  have h: "\<not> duplicateResolved (PStr ''v1'') (checkoutLineItems (persisted cartWorld))"
    by (simp add: duplicateResolved_def includes_iff cartWorld_def initialState_def)
  have items: "checkoutLineItems (persisted cartWorld) =
      [\<lparr> variantId = PStr ''v2'', quantity = 1, customAttributes = Prim PUndefined \<rparr>]"
    by (simp add: cartWorld_def initialState_def)
  note pair = same_variant_twice_sums
      [of "PStr ''v1''" cartWorld 2 "Prim PUndefined" "rejected :: unit result"
          3 "Prim PUndefined" "rejected :: unit result"
          4 "Prim PUndefined" "rejected :: unit result", THEN conjunct1, rule_format, OF h]
  note place = same_variant_twice_sums
      [of "PStr ''v2''" cartWorld 2 "Prim PUndefined" "rejected :: unit result"
          3 "Prim PUndefined" "rejected :: unit result"
          4 "Prim PUndefined" "rejected :: unit result", THEN conjunct2, rule_format, of 0]
  from pair obtain w1 w2 where
    "useShopifyProductVariantWithContext (PStr ''v1'') cartWorld (Some 2)
       (Prim PUndefined) (rejected :: unit result) cartWorld = Inr w1"
    "useShopifyProductVariantWithContext (PStr ''v1'') w1 (Some 3)
       (Prim PUndefined) (rejected :: unit result) w1 = Inr w2"
    "checkoutLineItems (persisted w2) =
       \<lparr> variantId = PStr ''v1'', quantity = jsAdd 2 3,
         customAttributes = mergeValue (Prim PUndefined) (Prim PUndefined) \<rparr>
         # checkoutLineItems (persisted cartWorld)"
    by blast
  then have first: "\<exists>w1 w2.
         useShopifyProductVariantWithContext (PStr ''v1'') cartWorld (Some 2)
           (Prim PUndefined) (rejected :: unit result) cartWorld = Inr w1
       \<and> useShopifyProductVariantWithContext (PStr ''v1'') w1 (Some 3)
           (Prim PUndefined) (rejected :: unit result) w1 = Inr w2
       \<and> checkoutLineItems (persisted w2) =
           [\<lparr> variantId = PStr ''v1'', quantity = 5, customAttributes = Prim PUndefined \<rparr>,
            \<lparr> variantId = PStr ''v2'', quantity = 1, customAttributes = Prim PUndefined \<rparr>]"
    by (auto simp add: items jsAdd_exact)
  have second: "\<exists>w'. useShopifyProductVariantWithContext (PStr ''v2'') cartWorld (Some 4)
           (Prim PUndefined) (rejected :: unit result) cartWorld = Inr w'
         \<and> length (checkoutLineItems (persisted w')) = 1
         \<and> variantId (checkoutLineItems (persisted w') ! 0) = PStr ''v2''
         \<and> quantity (checkoutLineItems (persisted w') ! 0) = 5"
    using place by (auto simp add: items jsAdd_exact)
  from h first second show ?thesis
    by (simp add: items)
qed

text \<open>
  The claim as stated is about every pair of awaited calls. Two awaited calls through
  the function value of one render (\<open>await addToCheckout(2); await addToCheckout(3)\<close>
  in one handler) both merge into the list of that render: the second replaces the
  quantity 2 by 3. And a quantity of \<open>2^53\<close> raised by 1 stays \<open>2^53\<close>.
\<close>

theorem same_variant_twice_replaces:
  "map_sum id (\<lambda>w. checkoutLineItems (persisted w))
     (addAllFrom freshWorld [plainCall (PStr ''v1'') 2, plainCall (PStr ''v1'') 3] freshWorld) =
     Inr [\<lparr> variantId = PStr ''v1'', quantity = 3, customAttributes = Prim PUndefined \<rparr>]
   \<and> map_sum id (\<lambda>w. checkoutLineItems (persisted w))
     (addAll [plainCall (PStr ''v1'') 9007199254740992, plainCall (PStr ''v1'') 1] freshWorld) =
     Inr [\<lparr> variantId = PStr ''v1'', quantity = 9007199254740992,
            customAttributes = Prim PUndefined \<rparr>]"
  by (simp add: addNow_def hook_eq plainCall_def freshWorld_def initialState_def
        defaultQuantity_def nextLineItems_def Let_def duplicateResolved_def mergedLineItems_def
        includes_iff mergeWith_def mergePrim_def jsAdd_rounds)

text \<open>
  Claim C2. The duplicate test is \<open>includes(variantId, lineItem)\<close>, which looks at the
  values of all three keys (lemma \<open>includes_iff\<close>). An entry whose \<open>variantId\<close> differs
  from the candidate's is therefore merged into as soon as its quantity or its
  \<open>customAttributes\<close> equals the candidate's \<open>variantId\<close>, and the merge then overwrites
  the entry's own \<open>variantId\<close>:
  \<^item> the entry of variant \<open>'v2'\<close> added with the string \<open>'v1'\<close> as \<open>customAttributes\<close>
    becomes an entry of variant \<open>'v1'\<close> when \<open>'v1'\<close> is added;
  \<^item> with numeric ids, adding variant 3 turns the entry of variant 7 with quantity 3
    into an entry of variant 3 with quantity 4;
  \<^item> a hook whose \<open>variantId\<close> is still \<open>undefined\<close> raises the quantity of every entry
    that was added without \<open>customAttributes\<close>.
\<close>

theorem loose_match_merges_other_variant:
  "map_sum id (\<lambda>w. checkoutLineItems (persisted w))
     (addAll [\<lparr> callVariantId = PStr ''v2'', callQuantity = Some 1,
                 callCustomAttributes = Prim (PStr ''v1''),
                 callResult = (rejected :: unit result) \<rparr>,
              \<lparr> callVariantId = PStr ''v1'', callQuantity = None,
                 callCustomAttributes = Prim PUndefined,
                 callResult = (rejected :: unit result) \<rparr>] freshWorld) =
     Inr [\<lparr> variantId = PStr ''v1'', quantity = 2, customAttributes = Prim (PStr ''v1'') \<rparr>]
   \<and> nextLineItems (PNum 3) 1 (Prim PUndefined)
       [\<lparr> variantId = PNum 7, quantity = 3, customAttributes = Prim PUndefined \<rparr>] =
     [\<lparr> variantId = PNum 3, quantity = 4, customAttributes = Prim PUndefined \<rparr>]
   \<and> nextLineItems PUndefined 1 (Prim PUndefined)
       [\<lparr> variantId = PStr ''v2'', quantity = 1, customAttributes = Prim PUndefined \<rparr>,
        \<lparr> variantId = PStr ''v1'', quantity = 2, customAttributes = Prim PUndefined \<rparr>] =
     [\<lparr> variantId = PStr ''v2'', quantity = 2, customAttributes = Prim PUndefined \<rparr>,
      \<lparr> variantId = PStr ''v1'', quantity = 3, customAttributes = Prim PUndefined \<rparr>]"
  by (simp add: addNow_def hook_eq freshWorld_def initialState_def defaultQuantity_def
        nextLineItems_def Let_def duplicateResolved_def mergedLineItems_def
        includes_iff mergeWith_def mergePrim_def jsAdd_exact)

text \<open>
  On inputs typed as the remote API types them, the test does coincide with equality of
  the variant ids, and no id is taken for a quantity or for custom attributes.
\<close>

lemma typed_no_match:
  assumes "isIdentifier v"
    and "list_all (\<lambda>li. isAttributeInput (customAttributes li)) items"
    and "v \<notin> variantId ` set items"
  shows "\<not> duplicateResolved v items"
  using assms
  by (auto simp add: duplicateResolved_def list_ex_iff list_all_iff includes_iff
        isIdentifier_def isAttributeInput_def split: prim.splits jsval.splits)

lemma typed_pair:
  assumes "wellTypedCall d" and "wellTypedCall c"
  shows "callVariantId d \<noteq> PNum q \<and> Prim (callVariantId d) \<noteq> callCustomAttributes c"
  using assms
  by (cases "callVariantId d"; cases "callCustomAttributes c")
     (auto simp add: wellTypedCall_def isIdentifier_def isAttributeInput_def)

lemma typed_idsApart: "list_all wellTypedCall cs \<Longrightarrow> idsApart cs"
proof (induction cs)
  case Nil
  then show ?case by simp
next
  case (Cons c cs)
  from Cons.prems have c: "wellTypedCall c" and cs: "\<forall>d \<in> set cs. wellTypedCall d"
    by (simp_all add: list_all_iff)
  have "\<forall>d \<in> set cs. callVariantId d \<noteq> PNum (defaultQuantity (callQuantity c))
      \<and> Prim (callVariantId d) \<noteq> callCustomAttributes c"
  proof
    fix d
    assume "d \<in> set cs"
    with cs have "wellTypedCall d" by simp
    from typed_pair [OF this c]
    show "callVariantId d \<noteq> PNum (defaultQuantity (callQuantity c))
      \<and> Prim (callVariantId d) \<noteq> callCustomAttributes c" .
  qed
  with Cons show ?case
    by (simp add: list_all_iff)
qed

lemma addNow_insert:
  assumes "\<not> duplicateResolved (callVariantId c) (checkoutLineItems (persisted w))"
  shows "\<exists>w1. addNow c w = Inr w1
      \<and> checkoutLineItems (persisted w1) = candidate c # checkoutLineItems (persisted w)"
  using assms
  by (simp add: addNow_def hook_eq nextLineItems_insert candidate_def)

lemma addAll_apart:
  assumes "distinct (map callVariantId cs)"
    and "idsApart cs"
    and "\<forall>c \<in> set cs. \<not> duplicateResolved (callVariantId c) (checkoutLineItems (persisted w))"
  shows "\<exists>w'. addAll cs w = Inr w'
      \<and> checkoutLineItems (persisted w') = rev (map candidate cs) @ checkoutLineItems (persisted w)"
  using assms
proof (induction cs arbitrary: w)
  case Nil
  then show ?case by simp
next
  case (Cons c cs)
  from Cons.prems obtain w1 where
    w1: "addNow c w = Inr w1"
        "checkoutLineItems (persisted w1) = candidate c # checkoutLineItems (persisted w)"
    using addNow_insert [of c w] by auto
  have fresh: "\<forall>d \<in> set cs. \<not> duplicateResolved (callVariantId d) (checkoutLineItems (persisted w1))"
  proof
    fix d
    assume d: "d \<in> set cs"
    with Cons.prems have "callVariantId d \<noteq> callVariantId c"
      by (auto simp add: image_iff)
    moreover from d Cons.prems have
      "callVariantId d \<noteq> PNum (defaultQuantity (callQuantity c))"
      "Prim (callVariantId d) \<noteq> callCustomAttributes c"
      by (auto simp add: list_all_iff)
    moreover from d Cons.prems have
      "\<not> duplicateResolved (callVariantId d) (checkoutLineItems (persisted w))"
      by simp
    ultimately show "\<not> duplicateResolved (callVariantId d) (checkoutLineItems (persisted w1))"
      using w1 by (auto simp add: duplicateResolved_def includes_iff candidate_def)
  qed
  from Cons.IH [OF _ _ fresh] Cons.prems obtain w' where
    "addAll cs w1 = Inr w'"
    "checkoutLineItems (persisted w') = rev (map candidate cs) @ checkoutLineItems (persisted w1)"
    by auto
  with w1 show ?case by simp
qed

text \<open>
  Claim C3, as the code has it. Awaited calls, each made through the function value of
  the latest render, with pairwise distinct variant ids none of which is the quantity or
  the \<open>customAttributes\<close> value of an earlier call (string ids beside numeric quantities
  and attribute lists never are), starting from an empty sequence: every call prepends
  its candidate, so the persisted sequence is the candidates in reverse order of the
  calls, newest first, and as long as the number of calls.
\<close>

theorem distinct_variants_prepend:
  assumes "distinct (map callVariantId cs)"
    and "idsApart cs"
    and "checkoutLineItems (persisted w) = []"
  shows "\<exists>w'. addAll cs w = Inr w'
      \<and> checkoutLineItems (persisted w') = rev (map candidate cs)
      \<and> length (checkoutLineItems (persisted w')) = length cs"
proof -
  from assms have "\<forall>c \<in> set cs.
      \<not> duplicateResolved (callVariantId c) (checkoutLineItems (persisted w))"
    by (simp add: duplicateResolved_def)
  with addAll_apart [of cs w] assms obtain w' where
    "addAll cs w = Inr w'" "checkoutLineItems (persisted w') = rev (map candidate cs)"
    by auto
  then show ?thesis by simp
qed

theorem distinct_variants_prepend_witness:
  "distinct (map callVariantId [plainCall (PStr ''v1'') 2, plainCall (PStr ''v2'') 1,
                                plainCall (PStr ''v3'') 4])
   \<and> idsApart [plainCall (PStr ''v1'') 2, plainCall (PStr ''v2'') 1, plainCall (PStr ''v3'') 4]
   \<and> checkoutLineItems (persisted freshWorld) = []
   \<and> (\<exists>w'. addAll [plainCall (PStr ''v1'') 2, plainCall (PStr ''v2'') 1,
                    plainCall (PStr ''v3'') 4] freshWorld = Inr w'
         \<and> checkoutLineItems (persisted w') =
             [\<lparr> variantId = PStr ''v3'', quantity = 4, customAttributes = Prim PUndefined \<rparr>,
              \<lparr> variantId = PStr ''v2'', quantity = 1, customAttributes = Prim PUndefined \<rparr>,
              \<lparr> variantId = PStr ''v1'', quantity = 2, customAttributes = Prim PUndefined \<rparr>]
         \<and> length (checkoutLineItems (persisted w')) = 3)"
proof -
  let ?cs = "[plainCall (PStr ''v1'') 2, plainCall (PStr ''v2'') 1, plainCall (PStr ''v3'') 4]"
  have h1: "distinct (map callVariantId ?cs)"
    by (simp add: plainCall_def)
  have h2: "idsApart ?cs"
    by (simp add: plainCall_def)
  have h3: "checkoutLineItems (persisted freshWorld) = []"
    by (simp add: freshWorld_def initialState_def)
  from distinct_variants_prepend [OF h1 h2 h3] obtain w' where
    run: "addAll ?cs freshWorld = Inr w'"
    and items: "checkoutLineItems (persisted w') = rev (map candidate ?cs)"
    by blast
  have newest_first: "rev (map candidate ?cs) =
      [\<lparr> variantId = PStr ''v3'', quantity = 4, customAttributes = Prim PUndefined \<rparr>,
       \<lparr> variantId = PStr ''v2'', quantity = 1, customAttributes = Prim PUndefined \<rparr>,
       \<lparr> variantId = PStr ''v1'', quantity = 2, customAttributes = Prim PUndefined \<rparr>]"
    by (simp add: candidate_def plainCall_def defaultQuantity_def)
  have "addAll ?cs freshWorld = Inr w'
      \<and> checkoutLineItems (persisted w') =
          [\<lparr> variantId = PStr ''v3'', quantity = 4, customAttributes = Prim PUndefined \<rparr>,
           \<lparr> variantId = PStr ''v2'', quantity = 1, customAttributes = Prim PUndefined \<rparr>,
           \<lparr> variantId = PStr ''v1'', quantity = 2, customAttributes = Prim PUndefined \<rparr>]
      \<and> length (checkoutLineItems (persisted w')) = 3"
    using run items newest_first by simp
  then have "\<exists>w'. addAll ?cs freshWorld = Inr w'
      \<and> checkoutLineItems (persisted w') =
          [\<lparr> variantId = PStr ''v3'', quantity = 4, customAttributes = Prim PUndefined \<rparr>,
           \<lparr> variantId = PStr ''v2'', quantity = 1, customAttributes = Prim PUndefined \<rparr>,
           \<lparr> variantId = PStr ''v1'', quantity = 2, customAttributes = Prim PUndefined \<rparr>]
      \<and> length (checkoutLineItems (persisted w')) = 3"
    by (rule exI)
  with h1 h2 h3 show ?thesis
    by (intro conjI)
qed

text \<open>
  The claim as stated is about every sequence of calls with distinct variant ids. Two
  awaited calls for \<open>'v1'\<close> and \<open>'v2'\<close> through the function values of one render both
  start from the empty list of that render: one entry is left, the first is lost. And
  with the ids 7 and 3, the second call takes the quantity 3 of the first entry for its
  own id and merges: one entry again.
\<close>

theorem distinct_variants_lost:
  "map_sum id (\<lambda>w. checkoutLineItems (persisted w))
     (addAllFrom freshWorld [plainCall (PStr ''v1'') 2, plainCall (PStr ''v2'') 1] freshWorld) =
     Inr [\<lparr> variantId = PStr ''v2'', quantity = 1, customAttributes = Prim PUndefined \<rparr>]
   \<and> distinct (map callVariantId [plainCall (PStr ''v1'') 2, plainCall (PStr ''v2'') 1])
   \<and> map_sum id (\<lambda>w. checkoutLineItems (persisted w))
     (addAll [plainCall (PNum 7) 3, plainCall (PNum 3) 1] freshWorld) =
     Inr [\<lparr> variantId = PNum 3, quantity = 4, customAttributes = Prim PUndefined \<rparr>]
   \<and> distinct (map callVariantId [plainCall (PNum 7) 3, plainCall (PNum 3) 1])"
  by (simp add: addNow_def hook_eq plainCall_def freshWorld_def initialState_def
        defaultQuantity_def nextLineItems_def Let_def duplicateResolved_def mergedLineItems_def
        includes_iff mergeWith_def mergePrim_def jsAdd_exact)

section \<open>The startup effects\<close>

text \<open>
  Claim C8. A fresh process in which two instances of the checkout hook are mounted
  with auto-create on (for example one component that calls
  \<open>useShopifyCheckoutWithContext()\<close> and one that calls
  \<open>useShopifyProductVariantWithContext\<close>): after the first render both effects find no
  checkout id and both call \<open>createCheckout\<close>. Two requests are sent, and when the
  gateway has answered both with the ids \<open>gid-1\<close> and \<open>gid-2\<close> the persisted id is the
  one that was stored last.
\<close>

theorem two_instances_create_twice:
  "mountCheckouts [True, True] freshWorld =
     (\<lparr> persisted = initialState, sessionIsNew = True,
        requests = [CreateCheckout, CreateCheckout] \<rparr>, 2)
   \<and> answerCreates kept [True, True] [created ''gid-1'', created ''gid-2'']
       (mountCheckouts [True, True] freshWorld) =
     Inr (\<lparr> persisted = \<lparr> customerAccessToken = None, customerAccessTokenExpiresAt = None,
                           checkoutId = Some ''gid-2'', checkoutLineItems = [] \<rparr>,
             sessionIsNew = True,
             requests = [CreateCheckout, CreateCheckout] \<rparr>, 0)"
  by (simp add: mountCheckouts_def mountCheckout_def createGuard_def answerCreate_def
        request_def created_def freshWorld_def initialState_def truthy_def)

lemma update_flag_false:
  "update kept (\<lambda>w. Inr (setSessionIsNew False w)) (w, inFlight) =
     Inr (setSessionIsNew False w, inFlight)"
  by (simp add: update_def commit_def renewGuard_def setSessionIsNew_def)

text \<open>
  No render inside \<open>signOut\<close> starts a renewal, since the token is gone after the
  reset: seen from outside, the steps of \<open>signOut\<close> are \<open>signOut\<close>.
\<close>

lemma signOutStepwise_eq:
  "signOutStepwise kept tok (w, inFlight) =
     Inr (\<lparr> persisted = initialState, sessionIsNew = True,
            requests = requests w @ (if truthy tok then [DeleteCustomerAccessToken tok] else []) \<rparr>,
          inFlight)"
  by (simp add: signOutStepwise_def andThen_def update_def commit_def renewGuard_def
        setSessionIsNew_def request_def initialState_def truthy_def)

lemma signOutStepwise_signOut:
  "\<exists>w1. signOut tok w = Inr w1 \<and> signOutStepwise kept tok (w, inFlight) = Inr (w1, inFlight)"
  by (simp add: signOutStepwise_eq signOut_def request_def setSessionIsNew_def)

lemma resumeRenewal_failure:
  assumes "data r = None"
  shows "resumeRenewal kept tok r (w, inFlight) =
     Inr (\<lparr> persisted = initialState, sessionIsNew = False,
            requests = requests w @ (if truthy tok then [DeleteCustomerAccessToken tok] else []) \<rparr>,
          inFlight)"
  using assms
  by (simp add: resumeRenewal_def signOutStepwise_eq andThen_def update_flag_false)
     (simp add: setSessionIsNew_def)

lemma resumeRenewal_success:
  assumes "data r = Some d"
  shows "\<exists>w' rest'. resumeRenewal kept tok r (w, inFlight) = Inr (w', rest')
      \<and> \<not> sessionIsNew w'
      \<and> persisted w' = (persisted w)\<lparr> customerAccessToken := accessToken d,
                                       customerAccessTokenExpiresAt := expiresAt d \<rparr>"
  using assms
  by (simp add: resumeRenewal_def andThen_def update_def commit_def startRenewal_def
        update_flag_false setSessionIsNew_def request_def)

text \<open>
  The rest of an automatic renewal leaves the persisted state that \<open>renewToken\<close>
  returns; only the renders in between are new.
\<close>

lemma resumeRenewal_renewToken:
  assumes "renewToken tok r w = Inr (w1, r1)"
  shows "\<exists>w' rest'. resumeRenewal kept tok r (request (RenewCustomerAccessToken tok) w, inFlight) =
           Inr (w', rest')
      \<and> persisted w' = persisted w1 \<and> \<not> sessionIsNew w'"
proof (cases "data r")
  case None
  with assms show ?thesis
    by (auto simp add: resumeRenewal_failure renewToken_def signOut_def request_def
          setSessionIsNew_def Let_def)
next
  case (Some d)
  with assms resumeRenewal_success
      [OF Some, where tok = tok and w = "request (RenewCustomerAccessToken tok) w"
         and inFlight = inFlight and kept = kept]
  show ?thesis
    by (auto simp add: renewToken_def request_def Let_def)
qed




end
